theory Spec2Isabelle
  imports Complex_Main
begin

section \<open>The message schema\<close>

text \<open>
  The node exchanges \<^verbatim>\<open>pidrone_pkg.msg.State\<close> messages. The records below hold the
  fields the source reads and writes (and the frame name of the header, which it leaves
  alone); every scalar is only ever copied (no arithmetic is done on it), so the scalars
  are modelled as reals and the time stamp as a natural number of clock ticks. The two
  covariance blocks are flat sequences. The source stores references to the orientation,
  the angular velocity and the covariance sequences of the incoming message; nothing ever
  writes through them, so they are modelled as values.
\<close>

record Point =
  point_x :: real
  point_y :: real
  point_z :: real

record Quaternion =
  quat_x :: real
  quat_y :: real
  quat_z :: real
  quat_w :: real

record Vector3 =
  vec_x :: real
  vec_y :: real
  vec_z :: real

record Pose =
  position :: Point
  orientation :: Quaternion

record Twist =
  linear :: Vector3
  angular :: Vector3

record PoseWithCovariance =
  pose :: Pose
  pose_covariance :: "real list"

record TwistWithCovariance =
  twist :: Twist
  twist_covariance :: "real list"

record Header =
  stamp :: nat
  frame_id :: string

record State =
  header :: Header
  pose_with_covariance :: PoseWithCovariance
  twist_with_covariance :: TwistWithCovariance

text \<open>
  Modelled from the spec: the message class \<^verbatim>\<open>State\<close> is imported from
  \<^verbatim>\<open>pidrone_pkg.msg\<close> and its declaration is not part of the source file. The spec says that
  the fields of a record nobody has written yet "default to a defined neutral value (zero)";
  \<open>State_new\<close> is the value of the constructor call \<^verbatim>\<open>State()\<close> under that reading.
\<close>

definition State_new :: State where
  "State_new =
     \<lparr>header = \<lparr>stamp = 0, frame_id = []\<rparr>,
      pose_with_covariance =
        \<lparr>pose = \<lparr>position = \<lparr>point_x = 0, point_y = 0, point_z = 0\<rparr>,
                 orientation = \<lparr>quat_x = 0, quat_y = 0, quat_z = 0, quat_w = 0\<rparr>\<rparr>,
         pose_covariance = replicate 36 0\<rparr>,
      twist_with_covariance =
        \<lparr>twist = \<lparr>linear = \<lparr>vec_x = 0, vec_y = 0, vec_z = 0\<rparr>,
                  angular = \<lparr>vec_x = 0, vec_y = 0, vec_z = 0\<rparr>\<rparr>,
         twist_covariance = replicate 36 0\<rparr>\<rparr>"

text \<open>Short names for the six scalars the claims speak about.\<close>

abbreviation msg_x :: "State \<Rightarrow> real" where
  "msg_x m \<equiv> point_x (position (pose (pose_with_covariance m)))"

abbreviation msg_y :: "State \<Rightarrow> real" where
  "msg_y m \<equiv> point_y (position (pose (pose_with_covariance m)))"

abbreviation msg_z :: "State \<Rightarrow> real" where
  "msg_z m \<equiv> point_z (position (pose (pose_with_covariance m)))"

abbreviation msg_vel_x :: "State \<Rightarrow> real" where
  "msg_vel_x m \<equiv> vec_x (linear (twist (twist_with_covariance m)))"

abbreviation msg_vel_y :: "State \<Rightarrow> real" where
  "msg_vel_y m \<equiv> vec_y (linear (twist (twist_with_covariance m)))"

abbreviation msg_vel_z :: "State \<Rightarrow> real" where
  "msg_vel_z m \<equiv> vec_z (linear (twist (twist_with_covariance m)))"

section \<open>The coordinator object\<close>

text \<open>
  Exceptions are values. \<open>KeyboardInterrupt\<close> is the one exception of the model that is
  not an instance of Python's \<^verbatim>\<open>Exception\<close> class.
\<close>

datatype error =
    KeyError string
  | AttributeError
  | UnboundLocalError
  | OSError
  | ROSException
  | KeyboardInterrupt

fun is_Exception :: "error \<Rightarrow> bool" where
  "is_Exception KeyboardInterrupt = False"
| "is_Exception _ = True"

text \<open>The two callbacks a subscription can be bound to.\<close>

datatype handler = state_callback_handler | ema_helper_callback_handler

text \<open>
  The fields of \<^verbatim>\<open>self\<close>. A process object returned by \<^verbatim>\<open>subprocess.Popen\<close> is
  modelled by its handle, the position of the process in the list of processes the
  operating system has been asked to start. \<open>ema_state_msg\<close> is an attribute that exists only
  after the \<^verbatim>\<open>ukf2d\<close> branch has run, hence the option. \<open>published\<close> is the sequence of
  messages handed to the publisher of \<^verbatim>\<open>/pidrone/state\<close>.
\<close>

record StateEstimator =
  state_msg :: State
  primary_estimator :: string
  other_estimators :: "string list option"
  process_cmds_dict :: "(string \<times> string) list"
  can_use_throttled_ir :: "string list"
  can_use_throttled_imu :: "string list"
  can_use_throttled_optical_flow :: "string list"
  can_use_throttled_camera_pose :: "string list"
  processes :: "(string \<times> nat) list"
  ukf_topics :: "(nat \<times> string) list"
  ema_topic :: string
  simulator_topic :: string
  ema_state_msg :: "State option"
  subscribers :: "(string \<times> handler) list"
  published :: "State list"

section \<open>The callbacks\<close>

text \<open>
  \<^verbatim>\<open>state_callback\<close> (lines 114-153). \<open>now\<close> is the value of \<^verbatim>\<open>rospy.Time.now()\<close>.
  Reading \<^verbatim>\<open>self.ema_state_msg\<close> when the attribute was never created raises
  \<^verbatim>\<open>AttributeError\<close> (the object is then not returned: the time stamp written just before
  is not observable in the model). The output record is the single record \<open>state_msg\<close>,
  updated in place and then published.
\<close>

definition state_callback :: "nat \<Rightarrow> State \<Rightarrow> StateEstimator \<Rightarrow> error + StateEstimator" where
  "state_callback now msg self =
     (case (if primary_estimator self = ''ukf2d''
            then (case ema_state_msg self of
                    None \<Rightarrow> Inl AttributeError
                  | Some ema \<Rightarrow> Inr (msg_x ema, msg_y ema, msg_vel_x ema, msg_vel_y ema))
            else Inr (msg_x msg, msg_y msg, msg_vel_x msg, msg_vel_y msg)) of
        Inl e \<Rightarrow> Inl e
      | Inr (x, y, vel_x, vel_y) \<Rightarrow>
          (let z = msg_z msg;
               vel_z = msg_vel_z msg;
               orientation' = orientation (pose (pose_with_covariance msg));
               vel_angular = angular (twist (twist_with_covariance msg));
               out = \<lparr>header = (header (state_msg self))\<lparr>stamp := now\<rparr>,
                      pose_with_covariance =
                        \<lparr>pose = \<lparr>position = \<lparr>point_x = x, point_y = y, point_z = z\<rparr>,
                                 orientation = orientation'\<rparr>,
                         pose_covariance = pose_covariance (pose_with_covariance msg)\<rparr>,
                      twist_with_covariance =
                        \<lparr>twist = \<lparr>linear = \<lparr>vec_x = vel_x, vec_y = vel_y, vec_z = vel_z\<rparr>,
                                  angular = vel_angular\<rparr>,
                         twist_covariance = twist_covariance (twist_with_covariance msg)\<rparr>\<rparr>
           in Inr (self\<lparr>state_msg := out, published := published self @ [out]\<rparr>)))"

text \<open>
  \<^verbatim>\<open>ema_helper_callback\<close> (lines 155-163): four assignments into
  \<^verbatim>\<open>self.ema_state_msg\<close>, which must exist.
\<close>

definition ema_helper_callback :: "State \<Rightarrow> StateEstimator \<Rightarrow> error + StateEstimator" where
  "ema_helper_callback msg self =
     (case ema_state_msg self of
        None \<Rightarrow> Inl AttributeError
      | Some ema \<Rightarrow>
          Inr (self\<lparr>ema_state_msg := Some (ema
                 \<lparr>pose_with_covariance := (pose_with_covariance ema)
                    \<lparr>pose := (pose (pose_with_covariance ema))
                       \<lparr>position := (position (pose (pose_with_covariance ema)))
                          \<lparr>point_x := msg_x msg, point_y := msg_y msg\<rparr>\<rparr>\<rparr>,
                  twist_with_covariance := (twist_with_covariance ema)
                    \<lparr>twist := (twist (twist_with_covariance ema))
                       \<lparr>linear := (linear (twist (twist_with_covariance ema)))
                          \<lparr>vec_x := msg_vel_x msg, vec_y := msg_vel_y msg\<rparr>\<rparr>\<rparr>\<rparr>)\<rparr>))"

section \<open>Launching the estimator processes\<close>

text \<open>
  What the program cannot decide is a parameter: whether the operating system starts the
  \<open>n\<close>-th process, whether \<^verbatim>\<open>rospy.init_node\<close> and \<^verbatim>\<open>rospy.spin\<close> return or raise, and whether
  \<^verbatim>\<open>terminate()\<close> on a handle raises. The world records what was asked of the operating
  system: the command of every process started (a handle is an index into this list) and
  the handles on which \<^verbatim>\<open>terminate()\<close> was called, in order. Console output is not modelled.
\<close>

record Env =
  popen_error :: "nat \<Rightarrow> error option"
  init_node_error :: "error option"
  spin_error :: "error option"
  terminate_error :: "nat \<Rightarrow> error option"

record World =
  spawned :: "string list"
  terminate_calls :: "nat list"

text \<open>Python's \<^verbatim>\<open>str\<close> on an integer, used for \<^verbatim>\<open>'--dim '+str(sdim)\<close>.\<close>

fun str_nat :: "nat \<Rightarrow> string" where
  "str_nat n =
     (if n < 10 then [''0123456789'' ! n]
      else str_nat (n div 10) @ [''0123456789'' ! (n mod 10)])"

definition str_int :: "int \<Rightarrow> string" where
  "str_int i = (if i < 0 then CHR ''-'' # str_nat (nat (- i)) else str_nat (nat i))"

text \<open>
  The assignments of \<^verbatim>\<open>__init__\<close> (lines 31-59) that come before the call of
  \<^verbatim>\<open>start_estimator_subprocess_cmds\<close>. The four throttle parameters are accepted by
  \<^verbatim>\<open>__init__\<close> and stored nowhere.
\<close>

definition init_fields ::
  "string \<Rightarrow> string list option \<Rightarrow> bool \<Rightarrow> bool \<Rightarrow> bool \<Rightarrow> bool \<Rightarrow> int \<Rightarrow> StateEstimator" where
  "init_fields primary others ir_throttled imu_throttled optical_flow_throttled
       camera_pose_throttled sdim =
     \<lparr>state_msg = State_new,
      primary_estimator = primary,
      other_estimators = others,
      process_cmds_dict =
        [(''ema'', ''python StateEstimators/state_estimator_ema.py''),
         (''ukf2d'', ''python StateEstimators/student_state_estimator_ukf_2d.py''),
         (''ukf7d'', ''python StateEstimators/student_state_estimator_ukf_7d.py''),
         (''simulator'', ''rosrun pidrone_pkg drone_simulator.py --dim '' @ str_int sdim)],
      can_use_throttled_ir = [''ukf2d'', ''ukf7d''],
      can_use_throttled_imu = [''ukf2d'', ''ukf7d''],
      can_use_throttled_optical_flow = [''ukf7d''],
      can_use_throttled_camera_pose = [''ukf7d''],
      processes = [],
      ukf_topics = [(2, ''/pidrone/state/ukf_2d''), (7, ''/pidrone/state/ukf_7d'')],
      ema_topic = ''/pidrone/state/ema'',
      simulator_topic = ''/pidrone/state/simulator'',
      ema_state_msg = None,
      subscribers = [],
      published = []\<rparr>"

text \<open>\<^verbatim>\<open>append_throttle_flags\<close> (lines 103-112).\<close>

definition append_throttle_flags :: "StateEstimator \<Rightarrow> string \<Rightarrow> string \<Rightarrow> string" where
  "append_throttle_flags self cmd estimator =
     (let cmd1 = (if estimator \<in> set (can_use_throttled_ir self)
                  then cmd @ '' --ir_throttled'' else cmd);
          cmd2 = (if estimator \<in> set (can_use_throttled_imu self)
                  then cmd1 @ '' --imu_throttled'' else cmd1);
          cmd3 = (if estimator \<in> set (can_use_throttled_optical_flow self)
                  then cmd2 @ '' --optical_flow_throttled'' else cmd2);
          cmd4 = (if estimator \<in> set (can_use_throttled_camera_pose self)
                  then cmd3 @ '' --camera_pose_throttled'' else cmd3)
      in cmd4)"

text \<open>A dictionary lookup raises \<^verbatim>\<open>KeyError\<close> on a missing key.\<close>

definition dict_get :: "('k \<times> 'v) list \<Rightarrow> 'k \<Rightarrow> string \<Rightarrow> error + 'v" where
  "dict_get d k shown = (case map_of d k of None \<Rightarrow> Inl (KeyError shown) | Some v \<Rightarrow> Inr v)"

text \<open>
  The \<^verbatim>\<open>if/elif\<close> chain of lines 74-87: the subscriptions, and for \<^verbatim>\<open>ukf2d\<close> the extra
  command and the auxiliary record. It returns the object and the command list so far.
\<close>

definition subscribe_primary ::
  "StateEstimator \<Rightarrow> string list \<Rightarrow> error + (StateEstimator \<times> string list)" where
  "subscribe_primary self process_cmds =
     (if primary_estimator self = ''ukf2d'' then
        (case dict_get (process_cmds_dict self) ''ema'' ''ema'' of
           Inl e \<Rightarrow> Inl e
         | Inr ema_cmd \<Rightarrow>
             (case dict_get (ukf_topics self) 2 ''2'' of
                Inl e \<Rightarrow> Inl e
              | Inr topic \<Rightarrow>
                  Inr (self\<lparr>ema_state_msg := Some State_new,
                             subscribers := subscribers self @
                               [(ema_topic self, ema_helper_callback_handler),
                                (topic, state_callback_handler)]\<rparr>,
                       process_cmds @ [ema_cmd])))
      else if primary_estimator self = ''ukf7d'' then
        (case dict_get (ukf_topics self) 7 ''7'' of
           Inl e \<Rightarrow> Inl e
         | Inr topic \<Rightarrow>
             Inr (self\<lparr>subscribers := subscribers self @ [(topic, state_callback_handler)]\<rparr>,
                  process_cmds))
      else if primary_estimator self = ''ema'' then
        Inr (self\<lparr>subscribers := subscribers self @
                     [(ema_topic self, state_callback_handler)]\<rparr>, process_cmds)
      else if primary_estimator self = ''simulator'' then
        Inr (self\<lparr>subscribers := subscribers self @
                     [(simulator_topic self, state_callback_handler)]\<rparr>, process_cmds)
      else Inr (self, process_cmds))"

text \<open>
  The loop over \<^verbatim>\<open>self.other_estimators\<close> (lines 91-96). The membership test compares the
  estimator's name with the commands collected so far.
\<close>

fun other_cmds_loop :: "StateEstimator \<Rightarrow> string list \<Rightarrow> string list \<Rightarrow> error + string list" where
  "other_cmds_loop self [] process_cmds = Inr process_cmds"
| "other_cmds_loop self (other_estimator # rest) process_cmds =
     (if other_estimator \<notin> set process_cmds then
        (case dict_get (process_cmds_dict self) other_estimator other_estimator of
           Inl e \<Rightarrow> Inl e
         | Inr other_cmd \<Rightarrow>
             other_cmds_loop self rest
               (process_cmds @ [append_throttle_flags self other_cmd other_estimator]))
      else other_cmds_loop self rest process_cmds)"

text \<open>
  The loop that starts the processes (lines 98-101). A process that was started stays in
  the world when a later \<^verbatim>\<open>Popen\<close> raises.
\<close>

fun launch_loop ::
  "Env \<Rightarrow> string list \<Rightarrow> World \<Rightarrow> StateEstimator \<Rightarrow> World \<times> (error + StateEstimator)" where
  "launch_loop env [] w self = (w, Inr self)"
| "launch_loop env (p # ps) w self =
     (case popen_error env (length (spawned w)) of
        Some e \<Rightarrow> (w, Inl e)
      | None \<Rightarrow>
          launch_loop env ps (w\<lparr>spawned := spawned w @ [p]\<rparr>)
            (self\<lparr>processes := processes self @ [(p, length (spawned w))]\<rparr>))"

text \<open>\<^verbatim>\<open>start_estimator_subprocess_cmds\<close> (lines 70-101).\<close>

definition start_estimator_subprocess_cmds ::
  "Env \<Rightarrow> World \<Rightarrow> StateEstimator \<Rightarrow> World \<times> (error + StateEstimator)" where
  "start_estimator_subprocess_cmds env w self =
     (case dict_get (process_cmds_dict self) (primary_estimator self) (primary_estimator self) of
        Inl e \<Rightarrow> (w, Inl e)
      | Inr cmd0 \<Rightarrow>
          (let cmd = append_throttle_flags self cmd0 (primary_estimator self) in
           case subscribe_primary self [cmd] of
             Inl e \<Rightarrow> (w, Inl e)
           | Inr (self1, process_cmds1) \<Rightarrow>
               (case (case other_estimators self1 of
                        None \<Rightarrow> Inr process_cmds1
                      | Some others \<Rightarrow> other_cmds_loop self1 others process_cmds1) of
                  Inl e \<Rightarrow> (w, Inl e)
                | Inr process_cmds \<Rightarrow> launch_loop env process_cmds w self1)))"

text \<open>\<^verbatim>\<open>initialize_ros\<close> (lines 64-68): \<^verbatim>\<open>init_node\<close>, then \<^verbatim>\<open>spin\<close> until shutdown.\<close>

definition initialize_ros :: "Env \<Rightarrow> StateEstimator \<Rightarrow> error + StateEstimator" where
  "initialize_ros env self =
     (case init_node_error env of
        Some e \<Rightarrow> Inl e
      | None \<Rightarrow> (case spin_error env of Some e \<Rightarrow> Inl e | None \<Rightarrow> Inr self))"

text \<open>\<^verbatim>\<open>__init__\<close> (lines 29-62).\<close>

definition StateEstimator_init ::
  "Env \<Rightarrow> World \<Rightarrow> string \<Rightarrow> string list option \<Rightarrow> bool \<Rightarrow> bool \<Rightarrow> bool \<Rightarrow> bool \<Rightarrow> int
     \<Rightarrow> World \<times> (error + StateEstimator)" where
  "StateEstimator_init env w primary others ir_throttled imu_throttled optical_flow_throttled
       camera_pose_throttled sdim =
     (case start_estimator_subprocess_cmds env w
             (init_fields primary others ir_throttled imu_throttled optical_flow_throttled
                camera_pose_throttled sdim) of
        (w1, Inl e) \<Rightarrow> (w1, Inl e)
      | (w1, Inr self) \<Rightarrow> (w1, initialize_ros env self))"

section \<open>The top level\<close>

text \<open>The parsed command line.\<close>

record Args =
  arg_primary :: string
  arg_others :: "string list option"
  arg_ir_throttled :: bool
  arg_imu_throttled :: bool
  arg_optical_flow_throttled :: bool
  arg_camera_pose_throttled :: bool
  arg_sdim :: int

text \<open>
  The loop of the \<^verbatim>\<open>finally\<close> clause (lines 223-225). The call of \<^verbatim>\<open>terminate()\<close> is not
  guarded: an exception it raises leaves the loop.
\<close>

fun terminate_loop :: "Env \<Rightarrow> (string \<times> nat) list \<Rightarrow> World \<Rightarrow> World \<times> error option" where
  "terminate_loop env [] w = (w, None)"
| "terminate_loop env ((process_name, process) # rest) w =
     (let w1 = w\<lparr>terminate_calls := terminate_calls w @ [process]\<rparr> in
      case terminate_error env process of
        Some e \<Rightarrow> (w1, Some e)
      | None \<Rightarrow> terminate_loop env rest w1)"

text \<open>
  \<^verbatim>\<open>main\<close> after argument parsing (lines 208-226). The local variable \<^verbatim>\<open>se\<close> is bound only
  when the constructor returns; the \<^verbatim>\<open>finally\<close> clause reads \<^verbatim>\<open>se.processes\<close> and raises
  \<^verbatim>\<open>UnboundLocalError\<close> when it is not. The \<^verbatim>\<open>except\<close> clause swallows instances of
  \<^verbatim>\<open>Exception\<close>; any other exception is pending while the \<^verbatim>\<open>finally\<close> clause runs and is
  replaced by an exception raised there. The result is the world at exit and the exception
  that leaves \<^verbatim>\<open>main\<close>, if any.
\<close>

definition finally_clause :: "Env \<Rightarrow> StateEstimator option \<Rightarrow> error option \<Rightarrow> World \<Rightarrow> World \<times> error option" where
  "finally_clause env se pending w =
     (case se of
        None \<Rightarrow> (w, Some UnboundLocalError)
      | Some se' \<Rightarrow>
          (case terminate_loop env (processes se') w of
             (w1, Some e) \<Rightarrow> (w1, Some e)
           | (w1, None) \<Rightarrow> (w1, pending)))"

definition main :: "Env \<Rightarrow> Args \<Rightarrow> World \<Rightarrow> World \<times> error option" where
  "main env args w =
     (case StateEstimator_init env w (arg_primary args) (arg_others args)
             (arg_ir_throttled args) (arg_imu_throttled args)
             (arg_optical_flow_throttled args) (arg_camera_pose_throttled args)
             (arg_sdim args) of
        (w1, Inr se) \<Rightarrow> finally_clause env (Some se) None w1
      | (w1, Inl e) \<Rightarrow>
          finally_clause env None (if is_Exception e then None else Some e) w1)"

section \<open>Sample inputs\<close>

text \<open>An environment in which nothing fails, and the world before anything was started.\<close>

definition env_no_failures :: Env where
  "env_no_failures =
     \<lparr>popen_error = (\<lambda>n. None), init_node_error = None, spin_error = None,
      terminate_error = (\<lambda>h. None)\<rparr>"

definition world_empty :: World where
  "world_empty = \<lparr>spawned = [], terminate_calls = []\<rparr>"

text \<open>A message of the schema, given by its ten groups of values.\<close>

definition mk_State ::
  "real \<Rightarrow> real \<Rightarrow> real \<Rightarrow> real \<Rightarrow> real \<Rightarrow> real \<Rightarrow> Quaternion \<Rightarrow> Vector3 \<Rightarrow> real list \<Rightarrow> real list
     \<Rightarrow> State" where
  "mk_State x y z vel_x vel_y vel_z q w pc tc =
     \<lparr>header = \<lparr>stamp = 0, frame_id = []\<rparr>,
      pose_with_covariance =
        \<lparr>pose = \<lparr>position = \<lparr>point_x = x, point_y = y, point_z = z\<rparr>, orientation = q\<rparr>,
         pose_covariance = pc\<rparr>,
      twist_with_covariance =
        \<lparr>twist = \<lparr>linear = \<lparr>vec_x = vel_x, vec_y = vel_y, vec_z = vel_z\<rparr>, angular = w\<rparr>,
         twist_covariance = tc\<rparr>\<rparr>"

definition sample_aux_msg :: State where
  "sample_aux_msg =
     mk_State 1 2 70 3 4 80 \<lparr>quat_x = 0, quat_y = 0, quat_z = 1, quat_w = 0\<rparr>
       \<lparr>vec_x = 7, vec_y = 8, vec_z = 9\<rparr> [11, 12] [13, 14]"

definition sample_primary_msg :: State where
  "sample_primary_msg =
     mk_State 10 20 5 30 40 6 \<lparr>quat_x = 0, quat_y = 0, quat_z = 0, quat_w = 1\<rparr>
       \<lparr>vec_x = 21, vec_y = 22, vec_z = 23\<rparr> [31, 32] [33, 34]"

text \<open>
  The primary channel is FIFO: a sequence of primary messages, each with the clock value
  at its arrival, is handled by \<open>state_callback\<close> one after the other.
\<close>

fun state_callbacks :: "(nat \<times> State) list \<Rightarrow> StateEstimator \<Rightarrow> error + StateEstimator" where
  "state_callbacks [] self = Inr self"
| "state_callbacks ((now, msg) # rest) self =
     (case state_callback now msg self of
        Inl e \<Rightarrow> Inl e
      | Inr self' \<Rightarrow> state_callbacks rest self')"

text \<open>
  Environments with one failure: \<^verbatim>\<open>rospy.init_node\<close> raises, or \<^verbatim>\<open>terminate()\<close> raises on
  the process with handle \<open>k\<close>.
\<close>

definition env_init_node_fails :: Env where
  "env_init_node_fails = env_no_failures\<lparr>init_node_error := Some ROSException\<rparr>"


text \<open>A command line: the primary, the others, one value for all four throttle switches.\<close>

definition args_of :: "string \<Rightarrow> string list option \<Rightarrow> bool \<Rightarrow> Args" where
  "args_of primary others flag =
     \<lparr>arg_primary = primary, arg_others = others, arg_ir_throttled = flag,
      arg_imu_throttled = flag, arg_optical_flow_throttled = flag,
      arg_camera_pose_throttled = flag, arg_sdim = 1\<rparr>"

section \<open>Fusion\<close>

text \<open>
  C6. For every primary estimator other than \<^verbatim>\<open>ukf2d\<close> (that is \<^verbatim>\<open>ema\<close>, \<^verbatim>\<open>ukf7d\<close> and
  \<^verbatim>\<open>simulator\<close>), handling a primary message succeeds, and the x, y, vel_x and vel_y fields
  of the record that is published are those of the message being handled.
\<close>

theorem state_callback_passthrough:
  assumes "primary_estimator self \<noteq> ''ukf2d''"
  shows "\<exists>self'. state_callback now msg self = Inr self'
           \<and> msg_x (state_msg self') = msg_x msg
           \<and> msg_y (state_msg self') = msg_y msg
           \<and> msg_vel_x (state_msg self') = msg_vel_x msg
           \<and> msg_vel_y (state_msg self') = msg_vel_y msg
           \<and> published self' = published self @ [state_msg self']"
  using assms by (simp add: state_callback_def Let_def)

theorem state_callback_passthrough_witness:
  "primary_estimator (init_fields ''simulator'' None False False False False 1) \<noteq> ''ukf2d''
   \<and> (\<exists>self'. state_callback 3 sample_primary_msg
                 (init_fields ''simulator'' None False False False False 1) = Inr self'
           \<and> msg_x (state_msg self') = 10
           \<and> msg_y (state_msg self') = 20
           \<and> msg_vel_x (state_msg self') = 30
           \<and> msg_vel_y (state_msg self') = 40
           \<and> published self' = [state_msg self'])"
proof -
  have h: "primary_estimator (init_fields ''simulator'' None False False False False 1) \<noteq> ''ukf2d''"
    by (simp add: init_fields_def)
  have p: "published (init_fields ''simulator'' None False False False False 1) = []"
    by (simp add: init_fields_def)
  from state_callback_passthrough [OF h, of 3 sample_primary_msg] h p show ?thesis
    by (simp add: sample_primary_msg_def mk_State_def)
qed

text \<open>
  C8. Whenever a primary message is handled, in every topology, the published record takes
  z, vel_z, the orientation and the angular velocity from the primary message, and both
  covariance blocks are those of the primary message. (Under \<^verbatim>\<open>ukf2d\<close> the auxiliary record
  exists once the constructor has run; that is the hypothesis.)
\<close>

theorem state_callback_primary_authoritative:
  assumes "primary_estimator self = ''ukf2d'' \<longrightarrow> ema_state_msg self \<noteq> None"
  shows "\<exists>self'. state_callback now msg self = Inr self'
           \<and> msg_z (state_msg self') = msg_z msg
           \<and> msg_vel_z (state_msg self') = msg_vel_z msg
           \<and> orientation (pose (pose_with_covariance (state_msg self')))
               = orientation (pose (pose_with_covariance msg))
           \<and> angular (twist (twist_with_covariance (state_msg self')))
               = angular (twist (twist_with_covariance msg))
           \<and> pose_covariance (pose_with_covariance (state_msg self'))
               = pose_covariance (pose_with_covariance msg)
           \<and> twist_covariance (twist_with_covariance (state_msg self'))
               = twist_covariance (twist_with_covariance msg)
           \<and> published self' = published self @ [state_msg self']"
  using assms by (auto simp add: state_callback_def Let_def)

theorem state_callback_primary_authoritative_witness:
  "primary_estimator ((init_fields ''ukf2d'' None False False False False 1)
        \<lparr>ema_state_msg := Some sample_aux_msg\<rparr>) = ''ukf2d''
   \<and> ema_state_msg ((init_fields ''ukf2d'' None False False False False 1)
        \<lparr>ema_state_msg := Some sample_aux_msg\<rparr>) \<noteq> None
   \<and> (\<exists>self'. state_callback 3 sample_primary_msg
                 ((init_fields ''ukf2d'' None False False False False 1)
                    \<lparr>ema_state_msg := Some sample_aux_msg\<rparr>) = Inr self'
           \<and> msg_z (state_msg self') = 5
           \<and> msg_vel_z (state_msg self') = 6
           \<and> orientation (pose (pose_with_covariance (state_msg self')))
               = \<lparr>quat_x = 0, quat_y = 0, quat_z = 0, quat_w = 1\<rparr>
           \<and> angular (twist (twist_with_covariance (state_msg self')))
               = \<lparr>vec_x = 21, vec_y = 22, vec_z = 23\<rparr>
           \<and> pose_covariance (pose_with_covariance (state_msg self')) = [31, 32]
           \<and> twist_covariance (twist_with_covariance (state_msg self')) = [33, 34]
           \<and> published self' = [state_msg self'])"
proof -
  let ?s = "(init_fields ''ukf2d'' None False False False False 1)
              \<lparr>ema_state_msg := Some sample_aux_msg\<rparr>"
  have h: "primary_estimator ?s = ''ukf2d'' \<longrightarrow> ema_state_msg ?s \<noteq> None"
    by simp
  have p: "published ?s = []"
    by (simp add: init_fields_def)
  have q: "primary_estimator ?s = ''ukf2d''"
    by (simp add: init_fields_def)
  from state_callback_primary_authoritative [OF h, of 3 sample_primary_msg] p q show ?thesis
    by (simp add: sample_primary_msg_def mk_State_def)
qed

text \<open>
  C9. Handling an auxiliary message succeeds when the auxiliary record exists. It overwrites
  the x, y, vel_x and vel_y fields of the auxiliary record with those of the message; every
  other field of the auxiliary record, the output record, the list of published messages
  and every other field of the object stay as they were: nothing is published.
\<close>

theorem ema_helper_callback_frame:
  assumes "ema_state_msg self = Some ema"
  shows "\<exists>self' ema'. ema_helper_callback msg self = Inr self'
           \<and> ema_state_msg self' = Some ema'
           \<and> msg_x ema' = msg_x msg \<and> msg_y ema' = msg_y msg
           \<and> msg_vel_x ema' = msg_vel_x msg \<and> msg_vel_y ema' = msg_vel_y msg
           \<and> msg_z ema' = msg_z ema \<and> msg_vel_z ema' = msg_vel_z ema
           \<and> orientation (pose (pose_with_covariance ema'))
               = orientation (pose (pose_with_covariance ema))
           \<and> angular (twist (twist_with_covariance ema'))
               = angular (twist (twist_with_covariance ema))
           \<and> pose_covariance (pose_with_covariance ema')
               = pose_covariance (pose_with_covariance ema)
           \<and> twist_covariance (twist_with_covariance ema')
               = twist_covariance (twist_with_covariance ema)
           \<and> header ema' = header ema
           \<and> state_msg self' = state_msg self
           \<and> published self' = published self
           \<and> self'\<lparr>ema_state_msg := ema_state_msg self\<rparr> = self"
  using assms by (simp add: ema_helper_callback_def)

theorem ema_helper_callback_frame_witness:
  "ema_state_msg ((init_fields ''ukf2d'' None False False False False 1)
        \<lparr>ema_state_msg := Some sample_primary_msg\<rparr>) = Some sample_primary_msg
   \<and> (\<exists>self' ema'. ema_helper_callback sample_aux_msg
                 ((init_fields ''ukf2d'' None False False False False 1)
                    \<lparr>ema_state_msg := Some sample_primary_msg\<rparr>) = Inr self'
           \<and> ema_state_msg self' = Some ema'
           \<and> msg_x ema' = 1 \<and> msg_y ema' = 2 \<and> msg_vel_x ema' = 3 \<and> msg_vel_y ema' = 4
           \<and> msg_z ema' = 5 \<and> msg_vel_z ema' = 6
           \<and> pose_covariance (pose_with_covariance ema') = [31, 32]
           \<and> twist_covariance (twist_with_covariance ema') = [33, 34]
           \<and> state_msg self' = State_new
           \<and> published self' = [])"
proof -
  let ?s = "(init_fields ''ukf2d'' None False False False False 1)
              \<lparr>ema_state_msg := Some sample_primary_msg\<rparr>"
  have h: "ema_state_msg ?s = Some sample_primary_msg"
    by simp
  have p: "published ?s = []" "state_msg ?s = State_new"
    by (simp_all add: init_fields_def)
  from ema_helper_callback_frame [OF h, of sample_aux_msg] obtain self' ema' where
    r: "ema_helper_callback sample_aux_msg ?s = Inr self'" "ema_state_msg self' = Some ema'"
      "msg_x ema' = msg_x sample_aux_msg" "msg_y ema' = msg_y sample_aux_msg"
      "msg_vel_x ema' = msg_vel_x sample_aux_msg" "msg_vel_y ema' = msg_vel_y sample_aux_msg"
      "msg_z ema' = msg_z sample_primary_msg" "msg_vel_z ema' = msg_vel_z sample_primary_msg"
      "pose_covariance (pose_with_covariance ema')
         = pose_covariance (pose_with_covariance sample_primary_msg)"
      "twist_covariance (twist_with_covariance ema')
         = twist_covariance (twist_with_covariance sample_primary_msg)"
      "state_msg self' = state_msg ?s" "published self' = published ?s"
    by blast
  from r p h show ?thesis
    by (simp add: sample_primary_msg_def sample_aux_msg_def mk_State_def)
qed

text \<open>
  C2. With \<^verbatim>\<open>ukf2d\<close> as the primary estimator (the auxiliary record exists), handling an
  auxiliary message with x=1, y=2, vel_x=3, vel_y=4 and then any primary message with z=5,
  vel_z=6 publishes one record, whose fields are x=1, y=2, z=5, vel_x=3, vel_y=4, vel_z=6.
\<close>

theorem ukf2d_cross_source_composition:
  assumes "primary_estimator self = ''ukf2d''" and "ema_state_msg self \<noteq> None"
    and "msg_x aux = 1" and "msg_y aux = 2" and "msg_vel_x aux = 3" and "msg_vel_y aux = 4"
    and "msg_z prim = 5" and "msg_vel_z prim = 6"
  shows "\<exists>self1 self2. ema_helper_callback aux self = Inr self1
           \<and> state_callback now prim self1 = Inr self2
           \<and> msg_x (state_msg self2) = 1 \<and> msg_y (state_msg self2) = 2
           \<and> msg_z (state_msg self2) = 5
           \<and> msg_vel_x (state_msg self2) = 3 \<and> msg_vel_y (state_msg self2) = 4
           \<and> msg_vel_z (state_msg self2) = 6
           \<and> published self2 = published self @ [state_msg self2]"
  using assms by (auto simp add: ema_helper_callback_def state_callback_def Let_def)

theorem ukf2d_cross_source_composition_witness:
  "\<exists>self1 self2.
      ema_helper_callback sample_aux_msg
        ((init_fields ''ukf2d'' None False False False False 1)
           \<lparr>ema_state_msg := Some State_new\<rparr>) = Inr self1
    \<and> state_callback 3 sample_primary_msg self1 = Inr self2
    \<and> msg_x (state_msg self2) = 1 \<and> msg_y (state_msg self2) = 2
    \<and> msg_z (state_msg self2) = 5
    \<and> msg_vel_x (state_msg self2) = 3 \<and> msg_vel_y (state_msg self2) = 4
    \<and> msg_vel_z (state_msg self2) = 6
    \<and> published self2 = [state_msg self2]"
proof -
  let ?s = "(init_fields ''ukf2d'' None False False False False 1)
              \<lparr>ema_state_msg := Some State_new\<rparr>"
  have h: "primary_estimator ?s = ''ukf2d''" "ema_state_msg ?s \<noteq> None"
    by (simp_all add: init_fields_def)
  have a: "msg_x sample_aux_msg = 1" "msg_y sample_aux_msg = 2"
    "msg_vel_x sample_aux_msg = 3" "msg_vel_y sample_aux_msg = 4"
    by (simp_all add: sample_aux_msg_def mk_State_def)
  have b: "msg_z sample_primary_msg = 5" "msg_vel_z sample_primary_msg = 6"
    by (simp_all add: sample_primary_msg_def mk_State_def)
  have p: "published ?s = []"
    by (simp add: init_fields_def)
  from ukf2d_cross_source_composition [OF h a b, of 3] p show ?thesis
    by simp
qed

text \<open>
  Starting the processes leaves the fusion state alone, and with \<^verbatim>\<open>ukf2d\<close> as the primary
  estimator the setup creates the auxiliary record as \<^verbatim>\<open>State()\<close>; \<open>state_callback\<close> never
  writes to the auxiliary record.
\<close>

lemma launch_loop_fields:
  "launch_loop env ps w self = (w', Inr self') \<Longrightarrow>
     primary_estimator self' = primary_estimator self
     \<and> ema_state_msg self' = ema_state_msg self
     \<and> published self' = published self
     \<and> state_msg self' = state_msg self"
  by (induction ps arbitrary: w self) (auto split: option.splits)

lemma start_ukf2d_fields:
  assumes "start_estimator_subprocess_cmds env w
             (init_fields ''ukf2d'' others ir imu ofl cp sdim) = (w', Inr self)"
  shows "primary_estimator self = ''ukf2d'' \<and> ema_state_msg self = Some State_new
         \<and> published self = []"
  using assms
  by (auto simp add: start_estimator_subprocess_cmds_def subscribe_primary_def dict_get_def
        init_fields_def Let_def split: sum.splits option.splits dest!: launch_loop_fields)

lemma state_callbacks_no_aux:
  "primary_estimator self = ''ukf2d'' \<Longrightarrow> ema_state_msg self = Some State_new \<Longrightarrow>
     \<exists>self'. state_callbacks ms self = Inr self'
       \<and> length (published self') = length (published self) + length ms
       \<and> (\<forall>m \<in> set (published self') - set (published self).
             msg_x m = 0 \<and> msg_y m = 0 \<and> msg_vel_x m = 0 \<and> msg_vel_y m = 0)"
proof (induction ms arbitrary: self)
  case Nil
  then show ?case by simp
next
  case (Cons a ms)
  obtain now msg where a: "a = (now, msg)" by (cases a)
  from Cons.prems obtain s1 where
    s1: "state_callback now msg self = Inr s1" "primary_estimator s1 = ''ukf2d''"
      "ema_state_msg s1 = Some State_new" "published s1 = published self @ [state_msg s1]"
      "msg_x (state_msg s1) = 0 \<and> msg_y (state_msg s1) = 0 \<and> msg_vel_x (state_msg s1) = 0
        \<and> msg_vel_y (state_msg s1) = 0"
    by (simp add: state_callback_def Let_def State_new_def)
  from Cons.IH [OF s1(2,3)] obtain s2 where
    s2: "state_callbacks ms s1 = Inr s2"
      "length (published s2) = length (published s1) + length ms"
      "\<forall>m \<in> set (published s2) - set (published s1).
          msg_x m = 0 \<and> msg_y m = 0 \<and> msg_vel_x m = 0 \<and> msg_vel_y m = 0"
    by blast
  have "state_callbacks (a # ms) self = Inr s2"
    using a s1(1) s2(1) by simp
  moreover have "length (published s2) = length (published self) + length (a # ms)"
    using s2(2) s1(4) by simp
  moreover have "\<forall>m \<in> set (published s2) - set (published self).
          msg_x m = 0 \<and> msg_y m = 0 \<and> msg_vel_x m = 0 \<and> msg_vel_y m = 0"
    using s2(3) s1(4,5) by auto
  ultimately show ?case by blast
qed

text \<open>
  C7. With \<^verbatim>\<open>ukf2d\<close> as the primary estimator, once \<^verbatim>\<open>start_estimator_subprocess_cmds\<close> has
  run, handling any sequence of primary messages before any auxiliary message has arrived
  raises no error and publishes one record per message, each with x = y = vel_x = vel_y = 0.
\<close>

theorem ukf2d_no_aux_defaults:
  assumes "start_estimator_subprocess_cmds env w
             (init_fields ''ukf2d'' others ir imu ofl cp sdim) = (w', Inr self)"
  shows "\<exists>self'. state_callbacks ms self = Inr self'
           \<and> length (published self') = length ms
           \<and> (\<forall>m \<in> set (published self').
                 msg_x m = 0 \<and> msg_y m = 0 \<and> msg_vel_x m = 0 \<and> msg_vel_y m = 0)"
proof -
  from start_ukf2d_fields [OF assms] have
    f: "primary_estimator self = ''ukf2d''" "ema_state_msg self = Some State_new"
       "published self = []"
    by simp_all
  from state_callbacks_no_aux [OF f(1,2), of ms] f(3) show ?thesis
    by simp
qed

lemma length_two_list: "length xs = length [a, b] \<Longrightarrow> \<exists>u v. xs = [u, v]"
  by (cases xs; cases "tl xs") auto

theorem ukf2d_no_aux_defaults_witness:
  "\<exists>w' self self'.
      start_estimator_subprocess_cmds env_no_failures world_empty
        (init_fields ''ukf2d'' None False False False False 1) = (w', Inr self)
    \<and> state_callbacks [(3, sample_primary_msg), (4, sample_aux_msg)] self = Inr self'
    \<and> map msg_x (published self') = [0, 0] \<and> map msg_y (published self') = [0, 0]
    \<and> map msg_vel_x (published self') = [0, 0] \<and> map msg_vel_y (published self') = [0, 0]"
proof -
  have "\<exists>w' self. start_estimator_subprocess_cmds env_no_failures world_empty
          (init_fields ''ukf2d'' None False False False False 1) = (w', Inr self)"
    by (simp add: start_estimator_subprocess_cmds_def subscribe_primary_def dict_get_def
          append_throttle_flags_def init_fields_def env_no_failures_def world_empty_def Let_def)
  then obtain w' self where
    h: "start_estimator_subprocess_cmds env_no_failures world_empty
          (init_fields ''ukf2d'' None False False False False 1) = (w', Inr self)"
    by blast
  from ukf2d_no_aux_defaults [OF h, of "[(3, sample_primary_msg), (4, sample_aux_msg)]"]
  obtain self' where
    r: "state_callbacks [(3, sample_primary_msg), (4, sample_aux_msg)] self = Inr self'"
       "length (published self') = length [(3::nat, sample_primary_msg), (4, sample_aux_msg)]"
       "\<forall>m \<in> set (published self').
           msg_x m = 0 \<and> msg_y m = 0 \<and> msg_vel_x m = 0 \<and> msg_vel_y m = 0"
    by blast
  from length_two_list [OF r(2)] obtain u v where uv: "published self' = [u, v]"
    by blast
  from r(3) uv have
    m: "map msg_x (published self') = [0, 0]" "map msg_y (published self') = [0, 0]"
       "map msg_vel_x (published self') = [0, 0]" "map msg_vel_y (published self') = [0, 0]"
    by simp_all
  show ?thesis
    by (intro exI conjI) (rule h, rule r(1), rule m(1), rule m(2), rule m(3), rule m(4))
qed

section \<open>Launching and shutting down\<close>

lemmas run_defs = main_def StateEstimator_init_def init_fields_def
  start_estimator_subprocess_cmds_def subscribe_primary_def dict_get_def
  append_throttle_flags_def initialize_ros_def finally_clause_def
  env_no_failures_def world_empty_def args_of_def Let_def

lemmas launch_defs = StateEstimator_init_def init_fields_def
  start_estimator_subprocess_cmds_def subscribe_primary_def dict_get_def
  append_throttle_flags_def initialize_ros_def
  env_no_failures_def world_empty_def Let_def

text \<open>
  The flags \<^verbatim>\<open>append_throttle_flags\<close> adds depend on the estimator alone: all four, in the
  order ir, imu, optical flow, camera pose, for \<^verbatim>\<open>ukf7d\<close>, the first two for \<^verbatim>\<open>ukf2d\<close>, and
  none for \<^verbatim>\<open>ema\<close> and \<^verbatim>\<open>simulator\<close>. The throttle parameters of the constructor play no part.
\<close>

lemma init_flags_irrelevant:
  "StateEstimator_init env w primary others ir imu ofl cp sdim
     = StateEstimator_init env w primary others ir' imu' ofl' cp' sdim"
  by (simp add: StateEstimator_init_def init_fields_def)

lemma main_flags_irrelevant:
  "main env (args\<lparr>arg_ir_throttled := ir', arg_imu_throttled := imu',
                  arg_optical_flow_throttled := ofl', arg_camera_pose_throttled := cp'\<rparr>) w
     = main env args w"
  by (simp add: main_def init_flags_irrelevant [of env w _ _ ir' imu' ofl' cp' _
        "arg_ir_throttled args" "arg_imu_throttled args" "arg_optical_flow_throttled args"
        "arg_camera_pose_throttled args"])

lemma append_throttle_flags_ukf7d:
  "append_throttle_flags (init_fields primary others ir imu ofl cp sdim) cmd ''ukf7d''
     = cmd @ '' --ir_throttled --imu_throttled --optical_flow_throttled --camera_pose_throttled''"
  by (simp add: append_throttle_flags_def init_fields_def)

lemma append_throttle_flags_ukf2d:
  "append_throttle_flags (init_fields primary others ir imu ofl cp sdim) cmd ''ukf2d''
     = cmd @ '' --ir_throttled --imu_throttled''"
  by (simp add: append_throttle_flags_def init_fields_def)

lemma append_throttle_flags_ema:
  "append_throttle_flags (init_fields primary others ir imu ofl cp sdim) cmd ''ema'' = cmd"
  by (simp add: append_throttle_flags_def init_fields_def)

lemma append_throttle_flags_simulator:
  "append_throttle_flags (init_fields primary others ir imu ofl cp sdim) cmd ''simulator'' = cmd"
  by (simp add: append_throttle_flags_def init_fields_def)

lemma spawned_ukf7d_any_flags:
  "spawned (fst (StateEstimator_init env_no_failures world_empty ''ukf7d'' None
                     ir imu ofl cp sdim))
     = [''python StateEstimators/student_state_estimator_ukf_7d.py --ir_throttled --imu_throttled --optical_flow_throttled --camera_pose_throttled'']"
  by (simp add: launch_defs)

lemma spawned_ukf2d_any_flags:
  "spawned (fst (StateEstimator_init env_no_failures world_empty ''ukf2d'' None
                     ir imu ofl cp sdim))
     = [''python StateEstimators/student_state_estimator_ukf_2d.py --ir_throttled --imu_throttled'',
        ''python StateEstimators/state_estimator_ema.py'']"
  by (simp add: launch_defs)

text \<open>
  C3. The claim is that primary \<^verbatim>\<open>ema\<close> with others \<^verbatim>\<open>[ema, ukf7d]\<close> starts two processes. The
  membership test of line 93 looks for the name \<^verbatim>\<open>'ema'\<close> among command strings, never
  finds it, and the command of \<^verbatim>\<open>ema\<close> is started a second time: three processes.
\<close>

theorem duplicate_primary_launched_twice:
  "spawned (fst (main env_no_failures (args_of ''ema'' (Some [''ema'', ''ukf7d'']) False) world_empty))
     = [''python StateEstimators/state_estimator_ema.py'',
        ''python StateEstimators/state_estimator_ema.py'',
        ''python StateEstimators/student_state_estimator_ukf_7d.py --ir_throttled --imu_throttled --optical_flow_throttled --camera_pose_throttled'']"
  by (simp add: run_defs)

text \<open>
  C4. The claim is that only requested flags are appended. With none of the four throttle
  switches given on the command line, the command of \<^verbatim>\<open>ukf7d\<close> still carries all four flags.
\<close>

theorem unrequested_flags_appended:
  "spawned (fst (main env_no_failures (args_of ''ukf7d'' None False) world_empty))
     = [''python StateEstimators/student_state_estimator_ukf_7d.py --ir_throttled --imu_throttled --optical_flow_throttled --camera_pose_throttled'']"
  by (simp add: run_defs)

text \<open>
  C10. The commands started do not depend on the four throttle parameters of the
  constructor: two runs that differ only in them start the same commands (indeed the
  constructor and \<^verbatim>\<open>main\<close> return the same result). The flags an estimator supports are
  appended whatever the parameters are: all four for \<^verbatim>\<open>ukf7d\<close>, the ir and imu flags for
  \<^verbatim>\<open>ukf2d\<close>, none for \<^verbatim>\<open>ema\<close> and \<^verbatim>\<open>simulator\<close>, and the commands started for \<^verbatim>\<open>ukf7d\<close> and
  for \<^verbatim>\<open>ukf2d\<close> carry them for every value of the parameters.
\<close>

theorem launch_independent_of_throttle_parameters:
  "StateEstimator_init env w primary others ir imu ofl cp sdim
     = StateEstimator_init env w primary others ir' imu' ofl' cp' sdim
   \<and> main env (args\<lparr>arg_ir_throttled := ir', arg_imu_throttled := imu',
                    arg_optical_flow_throttled := ofl', arg_camera_pose_throttled := cp'\<rparr>) w
     = main env args w
   \<and> set (spawned (fst (main env (args\<lparr>arg_ir_throttled := ir', arg_imu_throttled := imu',
                    arg_optical_flow_throttled := ofl', arg_camera_pose_throttled := cp'\<rparr>) w)))
     = set (spawned (fst (main env args w)))
   \<and> append_throttle_flags (init_fields primary others ir imu ofl cp sdim) cmd ''ukf7d''
     = cmd @ '' --ir_throttled --imu_throttled --optical_flow_throttled --camera_pose_throttled''
   \<and> append_throttle_flags (init_fields primary others ir imu ofl cp sdim) cmd ''ukf2d''
     = cmd @ '' --ir_throttled --imu_throttled''
   \<and> append_throttle_flags (init_fields primary others ir imu ofl cp sdim) cmd ''ema'' = cmd
   \<and> append_throttle_flags (init_fields primary others ir imu ofl cp sdim) cmd ''simulator'' = cmd
   \<and> spawned (fst (StateEstimator_init env_no_failures world_empty ''ukf7d'' None
                     ir imu ofl cp sdim))
     = [''python StateEstimators/student_state_estimator_ukf_7d.py --ir_throttled --imu_throttled --optical_flow_throttled --camera_pose_throttled'']
   \<and> spawned (fst (StateEstimator_init env_no_failures world_empty ''ukf2d'' None
                     ir imu ofl cp sdim))
     = [''python StateEstimators/student_state_estimator_ukf_2d.py --ir_throttled --imu_throttled'',
        ''python StateEstimators/state_estimator_ema.py'']"
proof (intro conjI)
  show "StateEstimator_init env w primary others ir imu ofl cp sdim
     = StateEstimator_init env w primary others ir' imu' ofl' cp' sdim"
    by (rule init_flags_irrelevant)
  show m: "main env (args\<lparr>arg_ir_throttled := ir', arg_imu_throttled := imu',
                    arg_optical_flow_throttled := ofl', arg_camera_pose_throttled := cp'\<rparr>) w
     = main env args w"
    by (rule main_flags_irrelevant)
  show "set (spawned (fst (main env (args\<lparr>arg_ir_throttled := ir', arg_imu_throttled := imu',
                    arg_optical_flow_throttled := ofl', arg_camera_pose_throttled := cp'\<rparr>) w)))
     = set (spawned (fst (main env args w)))"
    by (simp only: m)
qed (rule append_throttle_flags_ukf7d append_throttle_flags_ukf2d append_throttle_flags_ema
       append_throttle_flags_simulator spawned_ukf7d_any_flags spawned_ukf2d_any_flags)+

text \<open>
  C1. The claim is that every started process gets a termination attempt on every exit
  path. When \<^verbatim>\<open>rospy.init_node\<close> raises after the processes were started, the constructor
  does not return, \<^verbatim>\<open>se\<close> is unbound, and the \<^verbatim>\<open>finally\<close> clause raises at \<^verbatim>\<open>se.processes\<close>:
  the process of \<^verbatim>\<open>ema\<close> is running and \<^verbatim>\<open>terminate()\<close> was called on nothing.
\<close>

theorem setup_error_skips_termination:
  "main env_init_node_fails (args_of ''ema'' None False) world_empty
     = (\<lparr>spawned = [''python StateEstimators/state_estimator_ema.py''], terminate_calls = []\<rparr>,
        Some UnboundLocalError)"
  by (simp add: run_defs env_init_node_fails_def)















end
